theory Spec2Isabelle
  imports Main "HOL-Library.Word"
begin

section \<open>Values of the Go program\<close>

text \<open>
  The package \<open>radix\<close> (file \<open>radix.go\<close>) wraps a \<open>net.Conn\<close> in a \<open>connWrap\<close>.
  Go's \<open>error\<close> is an interface; the program asks one question of an error value, the
  type assertion \<open>err.(net.Error)\<close>. An error is therefore a message together with the
  fact whether its dynamic type implements \<open>net.Error\<close>. \<open>nil\<close> is \<open>None\<close>.
\<close>

type_synonym byte = "8 word"

datatype error = PlainError string | NetError string

text \<open>\<open>errors.New\<close> builds an \<open>*errorString\<close>, which does not implement \<open>net.Error\<close>.\<close>

definition errors_New :: "string \<Rightarrow> error" where
  "errors_New s = PlainError s"

text \<open>The assertion \<open>_, ok := err.(net.Error)\<close>; on a nil interface it yields \<open>ok = false\<close>.\<close>

fun is_net_Error :: "error option \<Rightarrow> bool" where
  "is_net_Error None = False"
| "is_net_Error (Some (PlainError s)) = False"
| "is_net_Error (Some (NetError s)) = True"

text \<open>
  The dynamic types a \<open>net.Conn\<close> value has in this program: a connection of Go's \<open>net\<close>
  package (named by a descriptor), a \<open>*timeoutConn\<close> (lines 151-154) or a
  \<open>connLimited\<close> (lines 59-61). Both structs embed a \<open>net.Conn\<close>; \<open>time.Duration\<close> is
  an \<open>int64\<close>.
\<close>

datatype netconn =
    RawConn nat
  | TimeoutConn timeoutConn
  | ConnLimited connLimited
and timeoutConn = TimeoutConnStruct (tc_Conn: netconn) (timeout: "64 word")
and connLimited = ConnLimitedStruct (cl_Conn: netconn)

section \<open>The environment: Go's library\<close>

text \<open>
  What the file calls and does not define: the methods of raw connections, the clock,
  the dialers of package \<open>net\<close> and the buffered reader/writer of package \<open>bufio\<close>.
  They are parameters of the model, acting on a world \<open>'s\<close> of which nothing is assumed;
  every theorem below holds for every environment. A \<open>time.Time\<close> is an \<open>int\<close>
  (nanoseconds); \<open>Read\<close> returns the buffer as it leaves it, with the count and the error.
  A \<open>*bufio.ReadWriter\<close> is named by a reference.
\<close>

record 's env =
  conn_Read :: "nat \<Rightarrow> byte list \<Rightarrow> 's \<Rightarrow> (byte list \<times> int \<times> error option) \<times> 's"
  conn_Write :: "nat \<Rightarrow> byte list \<Rightarrow> 's \<Rightarrow> (int \<times> error option) \<times> 's"
  conn_Close :: "nat \<Rightarrow> 's \<Rightarrow> error option \<times> 's"
  conn_SetDeadline :: "nat \<Rightarrow> int \<Rightarrow> 's \<Rightarrow> error option \<times> 's"
  time_Now :: "'s \<Rightarrow> int"
  time_Add :: "int \<Rightarrow> 64 word \<Rightarrow> int"
  net_Dial :: "string \<Rightarrow> string \<Rightarrow> 's \<Rightarrow> (nat \<times> error option) \<times> 's"
  net_DialTimeout :: "string \<Rightarrow> string \<Rightarrow> 64 word \<Rightarrow> 's \<Rightarrow> (nat \<times> error option) \<times> 's"
  bufio_NewReadWriter :: "netconn \<Rightarrow> 's \<Rightarrow> nat \<times> 's"
  bufio_Flush :: "nat \<Rightarrow> 's \<Rightarrow> error option \<times> 's"

section \<open>connLimited (lines 57-73)\<close>

definition connLimited_Read :: "connLimited \<Rightarrow> byte list \<Rightarrow> 's \<Rightarrow> (byte list \<times> int \<times> error option) \<times> 's" where
  "connLimited_Read cl b w =
     ((b, 0, Some (errors_New ''Read not allowed to be called on net.Conn returned from radix'')), w)"

definition connLimited_Write :: "connLimited \<Rightarrow> byte list \<Rightarrow> 's \<Rightarrow> (int \<times> error option) \<times> 's" where
  "connLimited_Write cl b w =
     ((0, Some (errors_New ''Write not allowed to be called on net.Conn returned from radix'')), w)"

definition connLimited_Close :: "connLimited \<Rightarrow> 's \<Rightarrow> error option \<times> 's" where
  "connLimited_Close cl w =
     (Some (errors_New ''Close not allowed to be called on net.Conn returned from radix''), w)"

section \<open>Method calls on a net.Conn value\<close>

text \<open>
  A call through the interface goes to the method of the dynamic type. A struct that
  embeds \<open>net.Conn\<close> and does not declare a method itself promotes the embedded value's:
  \<open>SetDeadline\<close> for both wrappers, \<open>Close\<close> for \<open>timeoutConn\<close>.
\<close>

fun netconn_SetDeadline :: "'s env \<Rightarrow> netconn \<Rightarrow> int \<Rightarrow> 's \<Rightarrow> error option \<times> 's" where
  "netconn_SetDeadline env (RawConn c) t w = conn_SetDeadline env c t w"
| "netconn_SetDeadline env (TimeoutConn (TimeoutConnStruct c d)) t w = netconn_SetDeadline env c t w"
| "netconn_SetDeadline env (ConnLimited (ConnLimitedStruct c)) t w = netconn_SetDeadline env c t w"

fun netconn_Close :: "'s env \<Rightarrow> netconn \<Rightarrow> 's \<Rightarrow> error option \<times> 's" where
  "netconn_Close env (RawConn c) w = conn_Close env c w"
| "netconn_Close env (TimeoutConn (TimeoutConnStruct c d)) w = netconn_Close env c w"
| "netconn_Close env (ConnLimited cl) w = connLimited_Close cl w"

subsection \<open>timeoutConn (lines 151-170)\<close>

text \<open>
  \<open>setDeadline\<close> (lines 156-160) drops the error \<open>SetDeadline\<close> returns; the comparison
  \<open>tc.timeout > 0\<close> is the signed one of \<open>int64\<close>.
\<close>

definition setDeadline :: "'s env \<Rightarrow> timeoutConn \<Rightarrow> 's \<Rightarrow> 's" where
  "setDeadline env tc w =
     (if 0 <s timeout tc
      then snd (netconn_SetDeadline env (tc_Conn tc) (time_Add env (time_Now env w) (timeout tc)) w)
      else w)"

fun netconn_Read :: "'s env \<Rightarrow> netconn \<Rightarrow> byte list \<Rightarrow> 's \<Rightarrow> (byte list \<times> int \<times> error option) \<times> 's"
and timeoutConn_Read :: "'s env \<Rightarrow> timeoutConn \<Rightarrow> byte list \<Rightarrow> 's \<Rightarrow> (byte list \<times> int \<times> error option) \<times> 's"
where
  "netconn_Read env (RawConn c) b w = conn_Read env c b w"
| "netconn_Read env (TimeoutConn tc) b w = timeoutConn_Read env tc b w"
| "netconn_Read env (ConnLimited cl) b w = connLimited_Read cl b w"
| "timeoutConn_Read env (TimeoutConnStruct c d) b w =
     netconn_Read env c b (setDeadline env (TimeoutConnStruct c d) w)"

fun netconn_Write :: "'s env \<Rightarrow> netconn \<Rightarrow> byte list \<Rightarrow> 's \<Rightarrow> (int \<times> error option) \<times> 's"
and timeoutConn_Write :: "'s env \<Rightarrow> timeoutConn \<Rightarrow> byte list \<Rightarrow> 's \<Rightarrow> (int \<times> error option) \<times> 's"
where
  "netconn_Write env (RawConn c) b w = conn_Write env c b w"
| "netconn_Write env (TimeoutConn tc) b w = timeoutConn_Write env tc b w"
| "netconn_Write env (ConnLimited cl) b w = connLimited_Write cl b w"
| "timeoutConn_Write env (TimeoutConnStruct c d) b w =
     netconn_Write env c b (setDeadline env (TimeoutConnStruct c d) w)"

section \<open>connWrap (lines 75-133)\<close>

text \<open>
  A \<open>connWrap\<close> is used through a pointer. Its fields \<open>Conn\<close> and \<open>brw\<close> are set when
  the struct is built and never assigned again, so a handle carries their values; the
  mutex \<open>doL\<close> is mutable and shared by everyone holding the pointer, so the handle
  carries the mutex's address and the store holds its state.
\<close>

record connWrap =
  Conn :: netconn
  brw :: nat
  doL :: nat

text \<open>
  The state of the program: the world of the environment, and the mutexes allocated so
  far, each at its address, \<open>True\<close> when locked.
\<close>

record 's state =
  world :: 's
  mutexes :: "bool list"

text \<open>
  A call returns, blocks for ever, or ends the program with a fatal error or a panic.
\<close>

datatype 'a outcome = Return 'a | Block | Fatal

text \<open>
  \<open>sync.Mutex\<close> as Go documents it: \<open>Lock\<close> on a locked mutex blocks until the mutex
  is unlocked, so in one thread of control it never returns; \<open>Unlock\<close> of an unlocked
  mutex is a fatal error.
\<close>

definition mutex_Lock :: "nat \<Rightarrow> 's state \<Rightarrow> 's state outcome" where
  "mutex_Lock m st =
     (if m < length (mutexes st)
      then (if mutexes st ! m then Block else Return (st\<lparr>mutexes := (mutexes st)[m := True]\<rparr>))
      else Fatal)"

definition mutex_Unlock :: "nat \<Rightarrow> 's state \<Rightarrow> 's state outcome" where
  "mutex_Unlock m st =
     (if m < length (mutexes st) \<and> mutexes st ! m
      then Return (st\<lparr>mutexes := (mutexes st)[m := False]\<rparr>)
      else Fatal)"

text \<open>
  The composite literal \<open>&connWrap{Conn: c, brw: b}\<close> (lines 88-91 and 101-104): a new
  struct, whose \<open>doL\<close> is a new mutex with the zero value, unlocked.
\<close>

definition new_connWrap :: "netconn \<Rightarrow> nat \<Rightarrow> 's state \<Rightarrow> connWrap \<times> 's state" where
  "new_connWrap c b st =
     (\<lparr>Conn = c, brw = b, doL = length (mutexes st)\<rparr>, st\<lparr>mutexes := mutexes st @ [False]\<rparr>)"

text \<open>
  \<open>NewConn\<close> (lines 87-92). The three calls
  \<open>bufio.NewReadWriter(bufio.NewReader(conn), bufio.NewWriter(conn))\<close> are one operation
  of the environment.
\<close>

definition NewConn :: "'s env \<Rightarrow> netconn \<Rightarrow> 's state \<Rightarrow> connWrap \<times> 's state" where
  "NewConn env conn st =
     (let (b, w1) = bufio_NewReadWriter env conn (world st)
      in new_connWrap conn b (st\<lparr>world := w1\<rparr>))"

text \<open>
  An \<open>Action\<close> is an interface with the method \<open>Run(Conn) error\<close>, declared outside this
  file; \<open>Do\<close> always passes it a \<open>*connWrap\<close>.
\<close>

type_synonym 's action = "connWrap \<Rightarrow> 's state \<Rightarrow> (error option \<times> 's state) outcome"

text \<open>
  \<open>Do\<close> (lines 94-106). The deferred \<open>Unlock\<close> runs when \<open>a.Run(inner)\<close> has
  returned. When \<open>Run\<close> panics the panic goes on after the \<open>Unlock\<close>; when it blocks,
  so does \<open>Do\<close>.
\<close>

definition Do :: "connWrap \<Rightarrow> 's action \<Rightarrow> 's state \<Rightarrow> (error option \<times> 's state) outcome" where
  "Do cw a st =
     (case mutex_Lock (doL cw) st of
        Return st1 \<Rightarrow>
          (let (inner, st2) = new_connWrap (Conn cw) (brw cw) st1
           in case a inner st2 of
                Return (err, st3) \<Rightarrow>
                  (case mutex_Unlock (doL cw) st3 of
                     Return st4 \<Rightarrow> Return (err, st4)
                   | Block \<Rightarrow> Block
                   | Fatal \<Rightarrow> Fatal)
              | Block \<Rightarrow> Block
              | Fatal \<Rightarrow> Fatal)
      | Block \<Rightarrow> Block
      | Fatal \<Rightarrow> Fatal)"

text \<open>
  \<open>connWrap\<close> declares no \<open>Close\<close>: \<open>cw.Close()\<close> is the promoted method of the embedded
  \<open>net.Conn\<close>.
\<close>

definition connWrap_Close :: "'s env \<Rightarrow> connWrap \<Rightarrow> 's \<Rightarrow> error option \<times> 's" where
  "connWrap_Close env cw w = netconn_Close env (Conn cw) w"

text \<open>
  A \<open>resp.Marshaler\<close> has \<open>MarshalRESP(io.Writer) error\<close>, a \<open>resp.Unmarshaler\<close> has
  \<open>UnmarshalRESP(io.Reader) error\<close>; both come from another package and get the buffered
  reader/writer of the connection.
\<close>

type_synonym 's marshaler = "nat \<Rightarrow> 's \<Rightarrow> error option \<times> 's"

type_synonym 's unmarshaler = "nat \<Rightarrow> 's \<Rightarrow> error option \<times> 's"

text \<open>
  \<open>Encode\<close> (lines 108-121). The deferred closure reads the variable \<open>err\<close> when the
  function returns, so it sees the error of the flush as well as that of the marshaler;
  what \<open>cw.Close()\<close> returns is dropped.
\<close>

definition deferred_Close :: "'s env \<Rightarrow> connWrap \<Rightarrow> error option \<Rightarrow> 's \<Rightarrow> 's" where
  "deferred_Close env cw err w = (if is_net_Error err then snd (connWrap_Close env cw w) else w)"

definition Encode :: "'s env \<Rightarrow> connWrap \<Rightarrow> 's marshaler \<Rightarrow> 's \<Rightarrow> error option \<times> 's" where
  "Encode env cw m w =
     (let (err, w1) = m (brw cw) w
      in if err \<noteq> None then (err, deferred_Close env cw err w1)
         else (let (err2, w2) = bufio_Flush env (brw cw) w1
               in (err2, deferred_Close env cw err2 w2)))"

text \<open>\<open>Decode\<close> (lines 123-129).\<close>

definition Decode :: "'s env \<Rightarrow> connWrap \<Rightarrow> 's unmarshaler \<Rightarrow> 's \<Rightarrow> error option \<times> 's" where
  "Decode env cw u w =
     (let (err, w1) = u (brw cw) w
      in (err, if is_net_Error err then snd (connWrap_Close env cw w1) else w1))"

text \<open>\<open>NetConn\<close> (lines 131-133).\<close>

definition NetConn :: "connWrap \<Rightarrow> netconn" where
  "NetConn cw = ConnLimited (ConnLimitedStruct (Conn cw))"

section \<open>The factories (lines 141-149 and 172-180)\<close>

text \<open>
  Both return Go's pair \<open>(Conn, error)\<close>; a nil \<open>Conn\<close> is \<open>None\<close>.
\<close>

definition Dial :: "'s env \<Rightarrow> string \<Rightarrow> string \<Rightarrow> 's state \<Rightarrow> (connWrap option \<times> error option) \<times> 's state" where
  "Dial env network addr st =
     (let ((c, err), w1) = net_Dial env network addr (world st)
      in if err \<noteq> None then ((None, err), st\<lparr>world := w1\<rparr>)
         else (let (cw, st2) = NewConn env (RawConn c) (st\<lparr>world := w1\<rparr>)
               in ((Some cw, None), st2)))"

definition DialTimeout :: "'s env \<Rightarrow> string \<Rightarrow> string \<Rightarrow> 64 word \<Rightarrow> 's state \<Rightarrow> (connWrap option \<times> error option) \<times> 's state" where
  "DialTimeout env network addr tmo st =
     (let ((c, err), w1) = net_DialTimeout env network addr tmo (world st)
      in if err \<noteq> None then ((None, err), st\<lparr>world := w1\<rparr>)
         else (let (cw, st2) = NewConn env (TimeoutConn (TimeoutConnStruct (RawConn c) tmo)) (st\<lparr>world := w1\<rparr>)
               in ((Some cw, None), st2)))"

section \<open>Several callers of Do on one connection\<close>

text \<open>
  Threads that call \<open>Do\<close> on the same \<open>cw\<close>, interleaved at the statements of lines
  94-106. A thread is outside \<open>Do\<close>, has entered it and waits at \<open>cw.doL.Lock()\<close>
  (line 95), or holds the lock and runs \<open>a.Run(inner)\<close> on the handle it built (lines
  101-105). The events are the statements: entering, the \<open>Lock\<close> that succeeds followed
  by building \<open>inner\<close>, a step of the action, and the deferred \<open>Unlock\<close> with the return.
  A \<open>Lock\<close> on a locked mutex is not an event: the thread stays where it is. \<open>doL\<close> is
  an unexported field that \<open>Run\<close> cannot reach through the \<open>Conn\<close> it is given, so a
  step of an action leaves that mutex locked; it may change everything else.
\<close>

datatype pc = Outside | Waiting | Inside connWrap

datatype 's event =
    Enter nat
  | Acquire nat
  | Step nat "connWrap \<Rightarrow> 's state \<Rightarrow> 's state"
  | Leave nat

record 's conc =
  store :: "'s state"
  pcs :: "pc list"

definition pc_of :: "'s conc \<Rightarrow> nat \<Rightarrow> pc option" where
  "pc_of c t = (if t < length (pcs c) then Some (pcs c ! t) else None)"

fun step :: "connWrap \<Rightarrow> 's event \<Rightarrow> 's conc \<Rightarrow> 's conc option" where
  "step cw (Enter t) c =
     (case pc_of c t of
        Some Outside \<Rightarrow> Some (c\<lparr>pcs := (pcs c)[t := Waiting]\<rparr>)
      | _ \<Rightarrow> None)"
| "step cw (Acquire t) c =
     (case pc_of c t of
        Some Waiting \<Rightarrow>
          (case mutex_Lock (doL cw) (store c) of
             Return st1 \<Rightarrow>
               (let (inner, st2) = new_connWrap (Conn cw) (brw cw) st1
                in Some \<lparr>store = st2, pcs = (pcs c)[t := Inside inner]\<rparr>)
           | Block \<Rightarrow> None
           | Fatal \<Rightarrow> None)
      | _ \<Rightarrow> None)"
| "step cw (Step t f) c =
     (case pc_of c t of
        Some (Inside inner) \<Rightarrow>
          (let st' = f inner (store c)
           in if doL cw < length (mutexes st') \<and> mutexes st' ! doL cw
              then Some (c\<lparr>store := st'\<rparr>) else None)
      | _ \<Rightarrow> None)"
| "step cw (Leave t) c =
     (case pc_of c t of
        Some (Inside inner) \<Rightarrow>
          (case mutex_Unlock (doL cw) (store c) of
             Return st4 \<Rightarrow> Some \<lparr>store = st4, pcs = (pcs c)[t := Outside]\<rparr>
           | Block \<Rightarrow> None
           | Fatal \<Rightarrow> None)
      | _ \<Rightarrow> None)"

text \<open>A schedule is a list of events; \<open>None\<close> when one of them cannot happen.\<close>

fun run :: "connWrap \<Rightarrow> 's event list \<Rightarrow> 's conc \<Rightarrow> 's conc option" where
  "run cw [] c = Some c"
| "run cw (e # es) c = (case step cw e c of None \<Rightarrow> None | Some c' \<Rightarrow> run cw es c')"

definition start :: "nat \<Rightarrow> 's state \<Rightarrow> 's conc" where
  "start n st = \<lparr>store = st, pcs = replicate n Outside\<rparr>"

fun inside :: "pc \<Rightarrow> bool" where
  "inside (Inside h) = True"
| "inside Outside = False"
| "inside Waiting = False"

text \<open>The number of threads between the \<open>Lock\<close> and the \<open>Unlock\<close> of \<open>Do\<close>.\<close>

definition holders :: "'s conc \<Rightarrow> nat" where
  "holders c = length (filter inside (pcs c))"

section \<open>A test double for the environment\<close>

text \<open>
  One simulated connection, used only to run the definitions on concrete inputs. The
  world records whether the connection is closed, whether the peer has reset it, the
  last deadline set, the clock, the bytes that reached the wire, the bytes waiting in
  the buffered writer, the duration the last dial was bounded by, and the connection
  the buffered reader/writer wraps. Flushing writes through that connection's own
  \<open>Write\<close>, as \<open>bufio\<close> does.
\<close>

record sim =
  sim_closed :: bool
  sim_reset :: bool
  sim_deadline :: "int option"
  sim_now :: int
  sim_wire :: "byte list"
  sim_pending :: "byte list"
  sim_dial_bound :: "64 word option"
  sim_wrapped :: "netconn option"

definition closed_error :: error where
  "closed_error = NetError ''use of closed network connection''"

definition reset_error :: error where
  "reset_error = NetError ''connection reset by peer''"

definition sim_raw :: "sim env" where
  "sim_raw =
     \<lparr>conn_Read = (\<lambda>c b w. if sim_closed w then ((b, 0, Some closed_error), w)
                            else if sim_reset w then ((b, 0, Some reset_error), w)
                            else ((b, 0, Some (PlainError ''EOF'')), w)),
      conn_Write = (\<lambda>c p w. if sim_closed w then ((0, Some closed_error), w)
                             else if sim_reset w then ((0, Some reset_error), w)
                             else ((int (length p), None), w\<lparr>sim_wire := sim_wire w @ p\<rparr>)),
      conn_Close = (\<lambda>c w. if sim_closed w then (Some closed_error, w)
                           else (None, w\<lparr>sim_closed := True\<rparr>)),
      conn_SetDeadline = (\<lambda>c t w. (None, w\<lparr>sim_deadline := Some t\<rparr>)),
      time_Now = sim_now,
      time_Add = (\<lambda>t d. t + sint d),
      net_Dial = (\<lambda>network addr w.
         if addr = [] then ((0, Some (NetError ''dial: missing address'')), w)
         else ((0, None), w\<lparr>sim_dial_bound := None\<rparr>)),
      net_DialTimeout = (\<lambda>network addr d w.
         if addr = [] then ((0, Some (NetError ''dial: missing address'')), w\<lparr>sim_dial_bound := Some d\<rparr>)
         else ((0, None), w\<lparr>sim_dial_bound := Some d\<rparr>)),
      bufio_NewReadWriter = (\<lambda>c w. (0, w\<lparr>sim_wrapped := Some c, sim_pending := []\<rparr>)),
      bufio_Flush = (\<lambda>r w. (None, w))\<rparr>"

definition sim_Flush :: "nat \<Rightarrow> sim \<Rightarrow> error option \<times> sim" where
  "sim_Flush r w =
     (if sim_pending w = [] then (None, w)
      else (case sim_wrapped w of
              None \<Rightarrow> (Some (PlainError ''no writer''), w)
            | Some c \<Rightarrow>
                (let ((n, err), w1) = netconn_Write sim_raw c (sim_pending w) w
                 in if err = None then (None, w1\<lparr>sim_pending := []\<rparr>) else (err, w1))))"

definition sim_env :: "sim env" where
  "sim_env = sim_raw\<lparr>bufio_Flush := sim_Flush\<rparr>"

definition sim0 :: sim where
  "sim0 = \<lparr>sim_closed = False, sim_reset = False, sim_deadline = None, sim_now = 1000,
           sim_wire = [], sim_pending = [], sim_dial_bound = None, sim_wrapped = None\<rparr>"

definition sim_start :: "sim state" where
  "sim_start = \<lparr>world = sim0, mutexes = []\<rparr>"

text \<open>
  A marshaler that writes bytes to the buffered writer and returns a given error, and an
  action that does nothing.
\<close>

definition put :: "byte list \<Rightarrow> error option \<Rightarrow> sim marshaler" where
  "put bs err r w = (err, w\<lparr>sim_pending := sim_pending w @ bs\<rparr>)"

definition noop :: "'s action" where
  "noop h st = Return (None, st)"

text \<open>
  An action that reports what it sees: it returns an error when the mutex at address 0
  is locked while it runs, and leaves the address of its own handle's mutex in the clock.
\<close>

definition probe :: "sim action" where
  "probe h st =
     Return (if mutexes st ! 0 then Some (PlainError ''held'') else None,
             st\<lparr>world := (world st)\<lparr>sim_now := int (doL h)\<rparr>\<rparr>)"

section \<open>The invariant of the lock\<close>

text \<open>
  The mutex of \<open>cw\<close> exists, and it is locked exactly when one thread is between the
  \<open>Lock\<close> and the \<open>Unlock\<close> of \<open>Do\<close>; otherwise no thread is.
\<close>

definition lock_inv :: "connWrap \<Rightarrow> 's conc \<Rightarrow> bool" where
  "lock_inv cw c =
     (doL cw < length (mutexes (store c))
      \<and> holders c = (if mutexes (store c) ! doL cw then 1 else 0))"

section \<open>Helper facts\<close>

lemma netconn_Close_Flush_irrelevant:
  "netconn_Close (env\<lparr>bufio_Flush := f\<rparr>) c w = netconn_Close env c w"
  by (induction env c w rule: netconn_Close.induct) simp_all

lemma Conn_NewConn [simp]: "Conn (fst (NewConn env conn st)) = conn"
  by (simp add: NewConn_def new_connWrap_def split: prod.splits)

lemma filter_update_count:
  "t < length xs \<Longrightarrow>
   length (filter P (xs[t := y])) + (if P (xs ! t) then 1 else 0) =
   length (filter P xs) + (if P y then 1 else 0)"
proof (induction xs arbitrary: t)
  case Nil
  then show ?case by simp
next
  case (Cons x xs)
  show ?case
  proof (cases t)
    case 0
    then show ?thesis by simp
  next
    case (Suc k)
    with Cons.prems have "k < length xs" by simp
    from Cons.IH [OF this] Suc show ?thesis by simp
  qed
qed

lemma holder_counts:
  "t < length xs \<Longrightarrow> P (xs ! t) \<Longrightarrow> 1 \<le> length (filter P xs)"
  by (metis One_nat_def Suc_leI filter_empty_conv length_greater_0_conv nth_mem)

section \<open>Encode and Decode\<close>

text \<open>
  C1. When the marshaler, the flush or the unmarshaler returns an error that is a
  \<open>net.Error\<close>, \<open>Encode\<close> (\<open>Decode\<close>) returns that very error and the world it leaves
  is the one \<open>Close\<close> of the connection produces from the world of the failing step.
  When the error is not a \<open>net.Error\<close>, the same error is returned and the world is
  the one the failing step left: \<open>Close\<close> has not been called.
\<close>

theorem transport_fault_closes:
  "(is_net_Error (Some e) \<longrightarrow>
      (m (brw cw) w = (Some e, w1) \<longrightarrow>
         Encode env cw m w = (Some e, snd (connWrap_Close env cw w1)))
      \<and> (m (brw cw) w = (None, w1) \<and> bufio_Flush env (brw cw) w1 = (Some e, w2) \<longrightarrow>
         Encode env cw m w = (Some e, snd (connWrap_Close env cw w2)))
      \<and> (u (brw cw) w = (Some e, w1) \<longrightarrow>
         Decode env cw u w = (Some e, snd (connWrap_Close env cw w1))))
   \<and> (\<not> is_net_Error (Some e) \<longrightarrow>
      (m (brw cw) w = (Some e, w1) \<longrightarrow> Encode env cw m w = (Some e, w1))
      \<and> (m (brw cw) w = (None, w1) \<and> bufio_Flush env (brw cw) w1 = (Some e, w2) \<longrightarrow>
         Encode env cw m w = (Some e, w2))
      \<and> (u (brw cw) w = (Some e, w1) \<longrightarrow> Decode env cw u w = (Some e, w1)))"
  by (simp add: Encode_def Decode_def deferred_Close_def)

theorem transport_fault_closes_witness:
  "is_net_Error (Some reset_error)
   \<and> put [] (Some reset_error) 0 sim0 = (Some reset_error, sim0)
   \<and> bufio_Flush sim_env 0 (sim0\<lparr>sim_reset := True, sim_wrapped := Some (RawConn 0), sim_pending := [1]\<rparr>) =
       (Some reset_error, sim0\<lparr>sim_reset := True, sim_wrapped := Some (RawConn 0), sim_pending := [1]\<rparr>)
   \<and> Encode sim_env \<lparr>Conn = RawConn 0, brw = 0, doL = 0\<rparr> (put [] (Some reset_error)) sim0 =
       (Some reset_error, sim0\<lparr>sim_closed := True\<rparr>)
   \<and> Encode sim_env \<lparr>Conn = RawConn 0, brw = 0, doL = 0\<rparr> (put [1] None)
         (sim0\<lparr>sim_reset := True, sim_wrapped := Some (RawConn 0)\<rparr>) =
       (Some reset_error,
        sim0\<lparr>sim_reset := True, sim_wrapped := Some (RawConn 0), sim_pending := [1], sim_closed := True\<rparr>)
   \<and> Decode sim_env \<lparr>Conn = RawConn 0, brw = 0, doL = 0\<rparr> (put [] (Some reset_error)) sim0 =
       (Some reset_error, sim0\<lparr>sim_closed := True\<rparr>)
   \<and> \<not> is_net_Error (Some (PlainError ''bad reply''))
   \<and> Encode sim_env \<lparr>Conn = RawConn 0, brw = 0, doL = 0\<rparr> (put [] (Some (PlainError ''bad reply''))) sim0 =
       (Some (PlainError ''bad reply''), sim0)
   \<and> Decode sim_env \<lparr>Conn = RawConn 0, brw = 0, doL = 0\<rparr> (put [] (Some (PlainError ''bad reply''))) sim0 =
       (Some (PlainError ''bad reply''), sim0)"
  using transport_fault_closes [of reset_error "put [] (Some reset_error)"
      "\<lparr>Conn = RawConn 0, brw = 0, doL = 0\<rparr>" sim0 sim0 sim_env sim0 "put [] (Some reset_error)"]
    transport_fault_closes [of reset_error "put [1] None"
      "\<lparr>Conn = RawConn 0, brw = 0, doL = 0\<rparr>" "sim0\<lparr>sim_reset := True, sim_wrapped := Some (RawConn 0)\<rparr>"
      "sim0\<lparr>sim_reset := True, sim_wrapped := Some (RawConn 0), sim_pending := [1]\<rparr>" sim_env
      "sim0\<lparr>sim_reset := True, sim_wrapped := Some (RawConn 0), sim_pending := [1]\<rparr>"
      "put [] (Some reset_error)"]
    transport_fault_closes [of "PlainError ''bad reply''" "put [] (Some (PlainError ''bad reply''))"
      "\<lparr>Conn = RawConn 0, brw = 0, doL = 0\<rparr>" sim0 sim0 sim_env sim0 "put [] (Some (PlainError ''bad reply''))"]
  by (simp add: put_def reset_error_def connWrap_Close_def sim_env_def sim_raw_def sim_Flush_def sim0_def)

text \<open>
  C9. When the marshaler returns an error, \<open>Encode\<close> returns it and the world is the one
  the marshaler left (after \<open>Close\<close> when the error is a \<open>net.Error\<close>); the result is the
  same whatever \<open>Flush\<close> would do, so \<open>Flush\<close> is not called and nothing that the
  marshaler buffered is written by \<open>Encode\<close>.
\<close>

theorem failed_marshal_skips_flush:
  "m (brw cw) w = (Some e, w1) \<Longrightarrow>
     Encode env cw m w = (Some e, if is_net_Error (Some e) then snd (connWrap_Close env cw w1) else w1)
     \<and> Encode (env\<lparr>bufio_Flush := f\<rparr>) cw m w = Encode env cw m w"
  by (simp add: Encode_def deferred_Close_def connWrap_Close_def netconn_Close_Flush_irrelevant)

theorem failed_marshal_skips_flush_witness:
  "put [7] (Some (PlainError ''cannot marshal'')) 0 (sim0\<lparr>sim_wrapped := Some (RawConn 0)\<rparr>) =
     (Some (PlainError ''cannot marshal''), sim0\<lparr>sim_wrapped := Some (RawConn 0), sim_pending := [7]\<rparr>)
   \<and> Encode sim_env \<lparr>Conn = RawConn 0, brw = 0, doL = 0\<rparr> (put [7] (Some (PlainError ''cannot marshal'')))
       (sim0\<lparr>sim_wrapped := Some (RawConn 0)\<rparr>) =
     (Some (PlainError ''cannot marshal''), sim0\<lparr>sim_wrapped := Some (RawConn 0), sim_pending := [7]\<rparr>)
   \<and> Encode sim_env \<lparr>Conn = RawConn 0, brw = 0, doL = 0\<rparr> (put [7] None)
       (sim0\<lparr>sim_wrapped := Some (RawConn 0)\<rparr>) =
     (None, sim0\<lparr>sim_wrapped := Some (RawConn 0), sim_wire := [7]\<rparr>)"
  using failed_marshal_skips_flush [of "put [7] (Some (PlainError ''cannot marshal''))"
      "\<lparr>Conn = RawConn 0, brw = 0, doL = 0\<rparr>" "sim0\<lparr>sim_wrapped := Some (RawConn 0)\<rparr>"
      "PlainError ''cannot marshal''" "sim0\<lparr>sim_wrapped := Some (RawConn 0), sim_pending := [7]\<rparr>" sim_env]
  by (simp add: put_def sim0_def Encode_def deferred_Close_def sim_env_def sim_raw_def sim_Flush_def)

section \<open>The restricted view\<close>

text \<open>
  C6. On the value \<open>NetConn\<close> returns, \<open>Read\<close> and \<open>Write\<close> return the count 0 and an
  error built by \<open>errors.New\<close>, \<open>Close\<close> returns such an error, \<open>Read\<close> leaves the
  caller's buffer as it was, and all three leave the world, hence the underlying
  connection, as it was, for every buffer and every environment.
\<close>

theorem view_refuses_io:
  "netconn_Read env (NetConn cw) b w =
     ((b, 0, Some (errors_New ''Read not allowed to be called on net.Conn returned from radix'')), w)
   \<and> netconn_Write env (NetConn cw) b w =
     ((0, Some (errors_New ''Write not allowed to be called on net.Conn returned from radix'')), w)
   \<and> netconn_Close env (NetConn cw) w =
     (Some (errors_New ''Close not allowed to be called on net.Conn returned from radix''), w)"
  by (simp add: NetConn_def connLimited_Read_def connLimited_Write_def connLimited_Close_def)

theorem view_refuses_io_witness:
  "netconn_Write sim_env (NetConn \<lparr>Conn = RawConn 0, brw = 0, doL = 0\<rparr>) [1, 2] sim0 =
     ((0, Some (PlainError ''Write not allowed to be called on net.Conn returned from radix'')), sim0)
   \<and> netconn_Close sim_env (NetConn \<lparr>Conn = RawConn 0, brw = 0, doL = 0\<rparr>) sim0 =
     (Some (PlainError ''Close not allowed to be called on net.Conn returned from radix''), sim0)
   \<and> netconn_Write sim_env (RawConn 0) [1, 2] sim0 = ((2, None), sim0\<lparr>sim_wire := [1, 2]\<rparr>)"
  using view_refuses_io [of sim_env "\<lparr>Conn = RawConn 0, brw = 0, doL = 0\<rparr>" "[1, 2]" sim0]
  by (simp add: errors_New_def sim_env_def sim_raw_def sim0_def)

section \<open>The deadline-enforcing stream\<close>

text \<open>
  C7. With a positive timeout, \<open>Read\<close> and \<open>Write\<close> of a \<open>timeoutConn\<close> are the
  embedded connection's \<open>Read\<close> and \<open>Write\<close> run in the world that
  \<open>SetDeadline(time.Now().Add(timeout))\<close> on the embedded connection leaves. With a zero
  or negative timeout they are the embedded connection's \<open>Read\<close> and \<open>Write\<close> in the
  unchanged world. In both cases the count and the error are those of that single call.
\<close>

theorem timeoutConn_deadline:
  "(0 <s timeout tc \<longrightarrow>
      timeoutConn_Read env tc b w =
        netconn_Read env (tc_Conn tc) b
          (snd (netconn_SetDeadline env (tc_Conn tc) (time_Add env (time_Now env w) (timeout tc)) w))
      \<and> timeoutConn_Write env tc b w =
        netconn_Write env (tc_Conn tc) b
          (snd (netconn_SetDeadline env (tc_Conn tc) (time_Add env (time_Now env w) (timeout tc)) w)))
   \<and> (\<not> 0 <s timeout tc \<longrightarrow>
      timeoutConn_Read env tc b w = netconn_Read env (tc_Conn tc) b w
      \<and> timeoutConn_Write env tc b w = netconn_Write env (tc_Conn tc) b w)"
  by (cases tc) (simp add: setDeadline_def)

theorem timeoutConn_deadline_witness:
  "0 <s (5::64 word)
   \<and> timeoutConn_Write sim_raw (TimeoutConnStruct (RawConn 0) 5) [1, 2] sim0 =
       ((2, None), sim0\<lparr>sim_deadline := Some 1005, sim_wire := [1, 2]\<rparr>)
   \<and> timeoutConn_Read sim_raw (TimeoutConnStruct (RawConn 0) 5) [0] (sim0\<lparr>sim_reset := True\<rparr>) =
       (([0], 0, Some reset_error), sim0\<lparr>sim_reset := True, sim_deadline := Some 1005\<rparr>)
   \<and> \<not> 0 <s (- 3::64 word)
   \<and> timeoutConn_Write sim_raw (TimeoutConnStruct (RawConn 0) (- 3)) [1, 2] sim0 =
       ((2, None), sim0\<lparr>sim_wire := [1, 2]\<rparr>)
   \<and> timeoutConn_Read sim_raw (TimeoutConnStruct (RawConn 0) 0) [0] (sim0\<lparr>sim_reset := True\<rparr>) =
       (([0], 0, Some reset_error), sim0\<lparr>sim_reset := True\<rparr>)"
  using timeoutConn_deadline [of "TimeoutConnStruct (RawConn 0) 5" sim_raw "[1, 2]" sim0]
    timeoutConn_deadline [of "TimeoutConnStruct (RawConn 0) 5" sim_raw "[0]" "sim0\<lparr>sim_reset := True\<rparr>"]
    timeoutConn_deadline [of "TimeoutConnStruct (RawConn 0) (- 3)" sim_raw "[1, 2]" sim0]
    timeoutConn_deadline [of "TimeoutConnStruct (RawConn 0) 0" sim_raw "[0]" "sim0\<lparr>sim_reset := True\<rparr>"]
  by (simp add: sim_raw_def sim0_def word_sless_alt)

section \<open>The factories\<close>

text \<open>
  C8. When the dial returns an error, \<open>Dial\<close> and \<open>DialTimeout\<close> return a nil \<open>Conn\<close>
  with that error, and the state is the one the single dial left: no second attempt, no
  \<open>connWrap\<close> built. When the dial returns no error, \<open>Dial\<close> returns what \<open>NewConn\<close>
  builds from the dialled connection, and \<open>DialTimeout\<close> what \<open>NewConn\<close> builds from
  a \<open>timeoutConn\<close> around the dialled connection holding the caller's duration; the
  \<open>connWrap\<close> that \<open>NewConn\<close> builds embeds the connection it was given.
\<close>

theorem dial_failure_and_wrapping:
  "(net_Dial env network addr (world st) = ((c, Some e), w1) \<longrightarrow>
      Dial env network addr st = ((None, Some e), st\<lparr>world := w1\<rparr>))
   \<and> (net_Dial env network addr (world st) = ((c, None), w1) \<longrightarrow>
      Dial env network addr st =
        ((Some (fst (NewConn env (RawConn c) (st\<lparr>world := w1\<rparr>))), None),
         snd (NewConn env (RawConn c) (st\<lparr>world := w1\<rparr>))))
   \<and> (net_DialTimeout env network addr tmo (world st) = ((c, Some e), w1) \<longrightarrow>
      DialTimeout env network addr tmo st = ((None, Some e), st\<lparr>world := w1\<rparr>))
   \<and> (net_DialTimeout env network addr tmo (world st) = ((c, None), w1) \<longrightarrow>
      DialTimeout env network addr tmo st =
        ((Some (fst (NewConn env (TimeoutConn (TimeoutConnStruct (RawConn c) tmo)) (st\<lparr>world := w1\<rparr>))), None),
         snd (NewConn env (TimeoutConn (TimeoutConnStruct (RawConn c) tmo)) (st\<lparr>world := w1\<rparr>))))
   \<and> Conn (fst (NewConn env conn st)) = conn"
  by (simp add: Dial_def DialTimeout_def split: prod.splits)

theorem dial_failure_and_wrapping_witness:
  "net_Dial sim_env ''tcp'' [] (world sim_start) = ((0, Some (NetError ''dial: missing address'')), sim0)
   \<and> Dial sim_env ''tcp'' [] sim_start = ((None, Some (NetError ''dial: missing address'')), sim_start)
   \<and> net_Dial sim_env ''tcp'' ''localhost:6379'' (world sim_start) = ((0, None), sim0)
   \<and> Dial sim_env ''tcp'' ''localhost:6379'' sim_start =
       ((Some \<lparr>Conn = RawConn 0, brw = 0, doL = 0\<rparr>, None),
        \<lparr>world = sim0\<lparr>sim_wrapped := Some (RawConn 0)\<rparr>, mutexes = [False]\<rparr>)
   \<and> net_DialTimeout sim_env ''tcp'' [] 5 (world sim_start) =
       ((0, Some (NetError ''dial: missing address'')), sim0\<lparr>sim_dial_bound := Some 5\<rparr>)
   \<and> DialTimeout sim_env ''tcp'' [] 5 sim_start =
       ((None, Some (NetError ''dial: missing address'')),
        sim_start\<lparr>world := sim0\<lparr>sim_dial_bound := Some 5\<rparr>\<rparr>)
   \<and> net_DialTimeout sim_env ''tcp'' ''localhost:6379'' 5 (world sim_start) =
       ((0, None), sim0\<lparr>sim_dial_bound := Some 5\<rparr>)
   \<and> DialTimeout sim_env ''tcp'' ''localhost:6379'' 5 sim_start =
       ((Some \<lparr>Conn = TimeoutConn (TimeoutConnStruct (RawConn 0) 5), brw = 0, doL = 0\<rparr>, None),
        \<lparr>world = sim0\<lparr>sim_dial_bound := Some 5,
                        sim_wrapped := Some (TimeoutConn (TimeoutConnStruct (RawConn 0) 5))\<rparr>,
         mutexes = [False]\<rparr>)"
  using dial_failure_and_wrapping [of sim_env "''tcp''" "[]" sim_start 0
      "NetError ''dial: missing address''" sim0 5 "RawConn 0"]
    dial_failure_and_wrapping [of sim_env "''tcp''" "''localhost:6379''" sim_start 0
      "NetError ''dial: missing address''" sim0 5 "RawConn 0"]
    dial_failure_and_wrapping [of sim_env "''tcp''" "[]" sim_start 0
      "NetError ''dial: missing address''" "sim0\<lparr>sim_dial_bound := Some 5\<rparr>" 5 "RawConn 0"]
    dial_failure_and_wrapping [of sim_env "''tcp''" "''localhost:6379''" sim_start 0
      "NetError ''dial: missing address''" "sim0\<lparr>sim_dial_bound := Some 5\<rparr>" 5 "RawConn 0"]
  by (simp add: sim_env_def sim_raw_def sim0_def sim_start_def NewConn_def new_connWrap_def)

text \<open>
  C10. \<open>DialTimeout\<close> passes its duration to \<open>net.DialTimeout\<close>, whose result decides
  the outcome, and on success the connection it returns embeds a \<open>timeoutConn\<close> holding
  the same duration, around which the buffered reader/writer is built; so, when the
  duration is positive, every \<open>Read\<close> and \<open>Write\<close> on that connection's stream first
  sets the deadline of the dialled connection to now plus that duration.
\<close>

theorem dial_timeout_two_uses:
  "net_DialTimeout env network addr tmo (world st) = ((c, None), w1) \<Longrightarrow>
   DialTimeout env network addr tmo st = ((r, err), st') \<Longrightarrow>
     (\<exists>cw. r = Some cw \<and> err = None
        \<and> Conn cw = TimeoutConn (TimeoutConnStruct (RawConn c) tmo)
        \<and> (brw cw, world st') =
            bufio_NewReadWriter env (TimeoutConn (TimeoutConnStruct (RawConn c) tmo)) w1
        \<and> (0 <s tmo \<longrightarrow>
             (\<forall>b w. netconn_Read env (Conn cw) b w =
                 conn_Read env c b (snd (conn_SetDeadline env c (time_Add env (time_Now env w) tmo) w)))
             \<and> (\<forall>b w. netconn_Write env (Conn cw) b w =
                 conn_Write env c b (snd (conn_SetDeadline env c (time_Add env (time_Now env w) tmo) w)))))"
  by (auto simp: DialTimeout_def NewConn_def new_connWrap_def setDeadline_def split: prod.splits)

theorem dial_timeout_two_uses_witness:
  "net_DialTimeout sim_env ''tcp'' ''localhost:6379'' 5 (world sim_start) =
     ((0, None), sim0\<lparr>sim_dial_bound := Some 5\<rparr>)
   \<and> DialTimeout sim_env ''tcp'' ''localhost:6379'' 5 sim_start =
       ((Some \<lparr>Conn = TimeoutConn (TimeoutConnStruct (RawConn 0) 5), brw = 0, doL = 0\<rparr>, None),
        \<lparr>world = sim0\<lparr>sim_dial_bound := Some 5,
                        sim_wrapped := Some (TimeoutConn (TimeoutConnStruct (RawConn 0) 5))\<rparr>,
         mutexes = [False]\<rparr>)
   \<and> 0 <s (5::64 word)
   \<and> netconn_Write sim_env (TimeoutConn (TimeoutConnStruct (RawConn 0) 5)) [1, 2] sim0 =
       ((2, None), sim0\<lparr>sim_deadline := Some 1005, sim_wire := [1, 2]\<rparr>)
   \<and> Encode sim_env \<lparr>Conn = TimeoutConn (TimeoutConnStruct (RawConn 0) 5), brw = 0, doL = 0\<rparr>
         (put [1, 2] None)
         (sim0\<lparr>sim_dial_bound := Some 5,
               sim_wrapped := Some (TimeoutConn (TimeoutConnStruct (RawConn 0) 5))\<rparr>) =
       (None, sim0\<lparr>sim_dial_bound := Some 5,
                    sim_wrapped := Some (TimeoutConn (TimeoutConnStruct (RawConn 0) 5)),
                    sim_deadline := Some 1005, sim_wire := [1, 2]\<rparr>)"
  using dial_timeout_two_uses [of sim_env "''tcp''" "''localhost:6379''" 5 sim_start 0
      "sim0\<lparr>sim_dial_bound := Some 5\<rparr>"
      "Some \<lparr>Conn = TimeoutConn (TimeoutConnStruct (RawConn 0) 5), brw = 0, doL = 0\<rparr>" None
      "\<lparr>world = sim0\<lparr>sim_dial_bound := Some 5,
                      sim_wrapped := Some (TimeoutConn (TimeoutConnStruct (RawConn 0) 5))\<rparr>,
        mutexes = [False]\<rparr>"]
  by (simp add: sim_env_def sim_raw_def sim_Flush_def sim0_def sim_start_def DialTimeout_def NewConn_def
      new_connWrap_def Encode_def deferred_Close_def put_def setDeadline_def word_sless_alt)

section \<open>Do\<close>

text \<open>
  C2. On a connection whose mutex is free, \<open>Do\<close> runs the action on a second handle
  with the same \<open>Conn\<close> and the same \<open>brw\<close> and a mutex of its own, in a state where
  the world is untouched and the mutex of the outer handle is locked. When the action
  blocks, \<open>Do\<close> blocks: there is no timeout. When the action returns, leaving that mutex
  locked, \<open>Do\<close> returns the action's error (nil or not) as it is, from the state the
  action left with that mutex unlocked: the action has run once.
\<close>

theorem Do_runs_action_on_second_handle:
  "doL cw < length (mutexes st) \<Longrightarrow> \<not> mutexes st ! doL cw \<Longrightarrow>
   inner = \<lparr>Conn = Conn cw, brw = brw cw, doL = length (mutexes st)\<rparr> \<Longrightarrow>
   st2 = st\<lparr>mutexes := (mutexes st)[doL cw := True] @ [False]\<rparr> \<Longrightarrow>
     Conn inner = Conn cw \<and> brw inner = brw cw \<and> doL inner \<noteq> doL cw
     \<and> world st2 = world st \<and> mutexes st2 ! doL cw \<and> \<not> mutexes st2 ! doL inner
     \<and> (a inner st2 = Block \<longrightarrow> Do cw a st = Block)
     \<and> (\<forall>err st3. a inner st2 = Return (err, st3) \<and> doL cw < length (mutexes st3) \<and> mutexes st3 ! doL cw \<longrightarrow>
          Do cw a st = Return (err, st3\<lparr>mutexes := (mutexes st3)[doL cw := False]\<rparr>))"
  by (auto simp: Do_def mutex_Lock_def mutex_Unlock_def new_connWrap_def nth_append)

theorem Do_runs_action_on_second_handle_witness:
  "(0::nat) < length [False] \<and> \<not> [False] ! 0
   \<and> probe \<lparr>Conn = RawConn 0, brw = 0, doL = 1\<rparr> \<lparr>world = sim0, mutexes = [True, False]\<rparr> =
       Return (Some (PlainError ''held''), \<lparr>world = sim0\<lparr>sim_now := 1\<rparr>, mutexes = [True, False]\<rparr>)
   \<and> Do \<lparr>Conn = RawConn 0, brw = 0, doL = 0\<rparr> probe \<lparr>world = sim0, mutexes = [False]\<rparr> =
       Return (Some (PlainError ''held''), \<lparr>world = sim0\<lparr>sim_now := 1\<rparr>, mutexes = [False, False]\<rparr>)
   \<and> Do \<lparr>Conn = RawConn 0, brw = 0, doL = 0\<rparr> noop \<lparr>world = sim0, mutexes = [False]\<rparr> =
       Return (None, \<lparr>world = sim0, mutexes = [False, False]\<rparr>)"
  using Do_runs_action_on_second_handle [of "\<lparr>Conn = RawConn 0, brw = 0, doL = 0\<rparr>"
      "\<lparr>world = sim0, mutexes = [False]\<rparr>" "\<lparr>Conn = RawConn 0, brw = 0, doL = 1\<rparr>"
      "\<lparr>world = sim0, mutexes = [True, False]\<rparr>" probe]
    Do_runs_action_on_second_handle [of "\<lparr>Conn = RawConn 0, brw = 0, doL = 0\<rparr>"
      "\<lparr>world = sim0, mutexes = [False]\<rparr>" "\<lparr>Conn = RawConn 0, brw = 0, doL = 1\<rparr>"
      "\<lparr>world = sim0, mutexes = [True, False]\<rparr>" noop]
  by (simp add: probe_def noop_def)

text \<open>
  C3. An action that calls \<open>Do\<close> on the handle it was given: the outer \<open>Do\<close> returns
  with the inner action's result, because the handle given to the action has a newly
  allocated, unlocked mutex. The same action calling \<open>Do\<close> on the outer handle would
  block for ever on the mutex the outer call holds.
\<close>

theorem nested_Do_returns:
  "doL cw < length (mutexes st) \<Longrightarrow> \<not> mutexes st ! doL cw \<Longrightarrow>
   n = length (mutexes st) \<Longrightarrow>
   a \<lparr>Conn = Conn cw, brw = brw cw, doL = n + 1\<rparr>
     (st\<lparr>mutexes := (mutexes st)[doL cw := True] @ [True, False]\<rparr>) = Return (err, st_out) \<Longrightarrow>
   n < length (mutexes st_out) \<Longrightarrow> mutexes st_out ! n \<Longrightarrow> mutexes st_out ! doL cw \<Longrightarrow>
     Do cw (\<lambda>inner. Do inner a) st =
       Return (err, st_out\<lparr>mutexes := (mutexes st_out)[n := False, doL cw := False]\<rparr>)
     \<and> Do cw (\<lambda>inner. Do cw a) st = Block"
  by (auto simp: Do_def mutex_Lock_def mutex_Unlock_def new_connWrap_def nth_append list_update_append)

theorem nested_Do_returns_witness:
  "(0::nat) < length [False] \<and> \<not> [False] ! 0
   \<and> probe \<lparr>Conn = RawConn 0, brw = 0, doL = 2\<rparr> \<lparr>world = sim0, mutexes = [True, True, False]\<rparr> =
       Return (Some (PlainError ''held''), \<lparr>world = sim0\<lparr>sim_now := 2\<rparr>, mutexes = [True, True, False]\<rparr>)
   \<and> Do \<lparr>Conn = RawConn 0, brw = 0, doL = 0\<rparr> (\<lambda>inner. Do inner probe) \<lparr>world = sim0, mutexes = [False]\<rparr> =
       Return (Some (PlainError ''held''), \<lparr>world = sim0\<lparr>sim_now := 2\<rparr>, mutexes = [False, False, False]\<rparr>)
   \<and> Do \<lparr>Conn = RawConn 0, brw = 0, doL = 0\<rparr>
        (\<lambda>inner. Do \<lparr>Conn = RawConn 0, brw = 0, doL = 0\<rparr> probe) \<lparr>world = sim0, mutexes = [False]\<rparr> = Block"
  using nested_Do_returns [of "\<lparr>Conn = RawConn 0, brw = 0, doL = 0\<rparr>"
      "\<lparr>world = sim0, mutexes = [False]\<rparr>" 1 probe "Some (PlainError ''held'')"
      "\<lparr>world = sim0\<lparr>sim_now := 2\<rparr>, mutexes = [True, True, False]\<rparr>"]
  by (simp add: probe_def)

section \<open>One Do at a time\<close>

lemma step_Enter_inv:
  assumes "lock_inv cw c" "step cw (Enter t) c = Some c'"
  shows "lock_inv cw c'"
proof -
  from assms(2) have t: "t < length (pcs c)" "pcs c ! t = Outside"
    and c': "c' = c\<lparr>pcs := (pcs c)[t := Waiting]\<rparr>"
    by (auto simp: pc_of_def split: if_splits pc.splits)
  from filter_update_count [OF t(1), of inside Waiting] t(2)
  have "holders c' = holders c" by (simp add: holders_def c')
  with assms(1) show ?thesis by (simp add: lock_inv_def c')
qed

lemma step_Acquire_inv:
  assumes "lock_inv cw c" "step cw (Acquire t) c = Some c'"
  shows "lock_inv cw c'"
proof -
  from assms(2) have t: "t < length (pcs c)" "pcs c ! t = Waiting"
    and free: "doL cw < length (mutexes (store c))" "\<not> mutexes (store c) ! doL cw"
    by (auto simp: pc_of_def mutex_Lock_def split: if_splits pc.splits outcome.splits)
  from assms(2) t free obtain inner where
    c': "c' = \<lparr>store = (store c)\<lparr>mutexes := (mutexes (store c))[doL cw := True] @ [False]\<rparr>,
               pcs = (pcs c)[t := Inside inner]\<rparr>"
    by (auto simp: pc_of_def mutex_Lock_def new_connWrap_def)
  from assms(1) free have "holders c = 0" by (simp add: lock_inv_def)
  with filter_update_count [OF t(1), of inside "Inside inner"] t(2)
  have "holders c' = 1" by (simp add: holders_def c')
  with free show ?thesis by (simp add: lock_inv_def c' nth_append)
qed

lemma step_Step_inv:
  assumes "lock_inv cw c" "step cw (Step t f) c = Some c'"
  shows "lock_inv cw c'"
proof -
  from assms(2) obtain inner where t: "t < length (pcs c)" "pcs c ! t = Inside inner"
    by (auto simp: pc_of_def split: if_splits pc.splits)
  with assms(2) have c': "c' = c\<lparr>store := f inner (store c)\<rparr>"
    and held: "doL cw < length (mutexes (f inner (store c)))" "mutexes (f inner (store c)) ! doL cw"
    by (auto simp: pc_of_def Let_def split: if_splits)
  from holder_counts [OF t(1), of inside] t(2) have "1 \<le> holders c" by (simp add: holders_def)
  with assms(1) have "holders c = 1" by (auto simp: lock_inv_def split: if_splits)
  then have "holders c' = 1" by (simp add: holders_def c')
  with held show ?thesis by (simp add: lock_inv_def c')
qed

lemma step_Leave_inv:
  assumes "lock_inv cw c" "step cw (Leave t) c = Some c'"
  shows "lock_inv cw c'"
proof -
  from assms(2) obtain inner where t: "t < length (pcs c)" "pcs c ! t = Inside inner"
    by (auto simp: pc_of_def split: if_splits pc.splits)
  with assms(2) have held: "doL cw < length (mutexes (store c))" "mutexes (store c) ! doL cw"
    and c': "c' = \<lparr>store = (store c)\<lparr>mutexes := (mutexes (store c))[doL cw := False]\<rparr>,
                  pcs = (pcs c)[t := Outside]\<rparr>"
    by (auto simp: pc_of_def mutex_Unlock_def split: if_splits)
  from assms(1) held have "holders c = 1" by (simp add: lock_inv_def)
  with filter_update_count [OF t(1), of inside Outside] t(2)
  have "holders c' = 0" by (simp add: holders_def c')
  with held show ?thesis by (simp add: lock_inv_def c')
qed

lemma step_inv: "lock_inv cw c \<Longrightarrow> step cw e c = Some c' \<Longrightarrow> lock_inv cw c'"
  by (cases e) (blast intro: step_Enter_inv step_Acquire_inv step_Step_inv step_Leave_inv)+

lemma run_inv: "lock_inv cw c \<Longrightarrow> run cw es c = Some c' \<Longrightarrow> lock_inv cw c'"
proof (induction es arbitrary: c)
  case Nil
  then show ?case by simp
next
  case (Cons e es)
  from Cons.prems(2) obtain c1 where s: "step cw e c = Some c1" and r: "run cw es c1 = Some c'"
    by (auto split: option.splits)
  from step_inv [OF Cons.prems(1) s] have "lock_inv cw c1" .
  from Cons.IH [OF this r] show ?case .
qed

lemma NewConn_start_inv: "NewConn env conn s0 = (cw, st) \<Longrightarrow> lock_inv cw (start n st)"
  by (auto simp: NewConn_def new_connWrap_def lock_inv_def start_def holders_def split: prod.splits)

text \<open>
  The events are \<open>Do\<close> cut at its statements. On a mutex that is held \<open>Do\<close> blocks,
  whatever the action. For a thread waiting at the \<open>Lock\<close>, in any state of the other
  threads, \<open>Do\<close> is its \<open>Acquire\<close> event, the action run on the handle and in the
  store that event produces, and its \<open>Leave\<close> event; \<open>Do\<close> blocks exactly when the
  \<open>Acquire\<close> event cannot happen.
\<close>

lemma Do_blocks_while_held:
  "doL cw < length (mutexes st) \<Longrightarrow> mutexes st ! doL cw \<Longrightarrow> Do cw a st = Block"
  by (simp add: Do_def mutex_Lock_def)

lemma Do_as_events:
  "pc_of c t = Some Waiting \<Longrightarrow> doL cw < length (mutexes (store c)) \<Longrightarrow>
   Do cw a (store c) =
     (case step cw (Acquire t) c of
        None \<Rightarrow> Block
      | Some c1 \<Rightarrow>
          (case pc_of c1 t of
             Some (Inside inner) \<Rightarrow>
               (case a inner (store c1) of
                  Return (err, st3) \<Rightarrow>
                    (case step cw (Leave t) (c1\<lparr>store := st3\<rparr>) of
                       Some c2 \<Rightarrow> Return (err, store c2)
                     | None \<Rightarrow> Fatal)
                | Block \<Rightarrow> Block
                | Fatal \<Rightarrow> Fatal)
           | _ \<Rightarrow> Fatal))"
  by (auto simp: Do_def pc_of_def mutex_Lock_def mutex_Unlock_def new_connWrap_def
      split: if_splits outcome.splits prod.splits)

lemma sequential_run_is_Do:
  "run cw [Enter t, Acquire t, Step t f, Leave t] c = Some c' \<Longrightarrow>
   Do cw (\<lambda>h s. Return (err, f h s)) (store c) = Return (err, store c')"
  by (auto simp: Do_def pc_of_def mutex_Lock_def mutex_Unlock_def new_connWrap_def Let_def
      split: option.splits pc.splits if_splits)

text \<open>
  C4. Take the connection \<open>NewConn\<close> builds and any number of threads calling \<open>Do\<close> on
  it. After every schedule of their events that can happen, at most one thread is
  between the \<open>Lock\<close> and the \<open>Unlock\<close> of \<open>Do\<close>; every reachable state is the end
  of such a schedule, so two calls are never there together. In such a state, while one
  thread is there, \<open>Do\<close> on that connection blocks for every action; and for every
  waiting thread \<open>Do\<close> is exactly its \<open>Acquire\<close> event, its action, and its \<open>Leave\<close>
  event, blocking when the \<open>Acquire\<close> event cannot happen.
\<close>

theorem one_Do_at_a_time:
  "NewConn env conn s0 = (cw, st) \<Longrightarrow> run cw sched (start n st) = Some c \<Longrightarrow>
     holders c \<le> 1
     \<and> (holders c = 1 \<longrightarrow> (\<forall>a. Do cw a (store c) = Block))
     \<and> (\<forall>t a. pc_of c t = Some Waiting \<longrightarrow>
          Do cw a (store c) =
            (case step cw (Acquire t) c of
               None \<Rightarrow> Block
             | Some c1 \<Rightarrow>
                 (case pc_of c1 t of
                    Some (Inside inner) \<Rightarrow>
                      (case a inner (store c1) of
                         Return (err, st3) \<Rightarrow>
                           (case step cw (Leave t) (c1\<lparr>store := st3\<rparr>) of
                              Some c2 \<Rightarrow> Return (err, store c2)
                            | None \<Rightarrow> Fatal)
                       | Block \<Rightarrow> Block
                       | Fatal \<Rightarrow> Fatal)
                  | _ \<Rightarrow> Fatal)))"
  (is "_ \<Longrightarrow> _ \<Longrightarrow> ?one \<and> ?blocks \<and> ?events")
proof -
  assume new: "NewConn env conn s0 = (cw, st)" and r: "run cw sched (start n st) = Some c"
  from run_inv [OF NewConn_start_inv [OF new] r] have inv: "lock_inv cw c" .
  then have valid: "doL cw < length (mutexes (store c))"
    and count: "holders c = (if mutexes (store c) ! doL cw then 1 else 0)"
    by (simp_all add: lock_inv_def)
  from count have one: ?one by simp
  have held: "mutexes (store c) ! doL cw" if "holders c = 1"
    using that count by (cases "mutexes (store c) ! doL cw") simp_all
  have blocks: ?blocks
  proof (intro impI allI)
    fix a
    assume "holders c = 1"
    from Do_blocks_while_held [OF valid held [OF this]] show "Do cw a (store c) = Block" .
  qed
  have events: ?events
  proof (intro allI impI)
    fix t a
    assume "pc_of c t = Some Waiting"
    from Do_as_events [OF this valid] show "Do cw a (store c) =
            (case step cw (Acquire t) c of
               None \<Rightarrow> Block
             | Some c1 \<Rightarrow>
                 (case pc_of c1 t of
                    Some (Inside inner) \<Rightarrow>
                      (case a inner (store c1) of
                         Return (err, st3) \<Rightarrow>
                           (case step cw (Leave t) (c1\<lparr>store := st3\<rparr>) of
                              Some c2 \<Rightarrow> Return (err, store c2)
                            | None \<Rightarrow> Fatal)
                       | Block \<Rightarrow> Block
                       | Fatal \<Rightarrow> Fatal)
                  | _ \<Rightarrow> Fatal))" .
  qed
  show "?one \<and> ?blocks \<and> ?events"
  proof (intro conjI)
    show ?one by (fact one)
    show ?blocks by (fact blocks)
    show ?events by (fact events)
  qed
qed

theorem one_Do_at_a_time_witness:
  "NewConn sim_env (RawConn 0) sim_start =
     (\<lparr>Conn = RawConn 0, brw = 0, doL = 0\<rparr>,
      \<lparr>world = sim0\<lparr>sim_wrapped := Some (RawConn 0)\<rparr>, mutexes = [False]\<rparr>)
   \<and> run \<lparr>Conn = RawConn 0, brw = 0, doL = 0\<rparr>
        [Enter 0, Enter 1, Acquire 0, Step 0 (\<lambda>h s. s\<lparr>world := (world s)\<lparr>sim_now := 7\<rparr>\<rparr>)]
        (start 2 \<lparr>world = sim0\<lparr>sim_wrapped := Some (RawConn 0)\<rparr>, mutexes = [False]\<rparr>) =
      Some \<lparr>store = \<lparr>world = sim0\<lparr>sim_wrapped := Some (RawConn 0), sim_now := 7\<rparr>,
                       mutexes = [True, False]\<rparr>,
            pcs = [Inside \<lparr>Conn = RawConn 0, brw = 0, doL = 1\<rparr>, Waiting]\<rparr>
   \<and> holders \<lparr>store = \<lparr>world = sim0\<lparr>sim_wrapped := Some (RawConn 0), sim_now := 7\<rparr>,
                         mutexes = [True, False]\<rparr>,
              pcs = [Inside \<lparr>Conn = RawConn 0, brw = 0, doL = 1\<rparr>, Waiting]\<rparr> = 1
   \<and> pc_of \<lparr>store = \<lparr>world = sim0\<lparr>sim_wrapped := Some (RawConn 0), sim_now := 7\<rparr>,
                       mutexes = [True, False]\<rparr>,
            pcs = [Inside \<lparr>Conn = RawConn 0, brw = 0, doL = 1\<rparr>, Waiting]\<rparr> 1 = Some Waiting
   \<and> step \<lparr>Conn = RawConn 0, brw = 0, doL = 0\<rparr> (Acquire 1)
         \<lparr>store = \<lparr>world = sim0\<lparr>sim_wrapped := Some (RawConn 0), sim_now := 7\<rparr>,
                    mutexes = [True, False]\<rparr>,
          pcs = [Inside \<lparr>Conn = RawConn 0, brw = 0, doL = 1\<rparr>, Waiting]\<rparr> = None
   \<and> Do \<lparr>Conn = RawConn 0, brw = 0, doL = 0\<rparr> probe
         \<lparr>world = sim0\<lparr>sim_wrapped := Some (RawConn 0), sim_now := 7\<rparr>, mutexes = [True, False]\<rparr> = Block
   \<and> run \<lparr>Conn = RawConn 0, brw = 0, doL = 0\<rparr>
        [Enter 0, Enter 1, Acquire 0, Step 0 (\<lambda>h s. s\<lparr>world := (world s)\<lparr>sim_now := 7\<rparr>\<rparr>), Leave 0]
        (start 2 \<lparr>world = sim0\<lparr>sim_wrapped := Some (RawConn 0)\<rparr>, mutexes = [False]\<rparr>) =
      Some \<lparr>store = \<lparr>world = sim0\<lparr>sim_wrapped := Some (RawConn 0), sim_now := 7\<rparr>,
                       mutexes = [False, False]\<rparr>,
            pcs = [Outside, Waiting]\<rparr>
   \<and> step \<lparr>Conn = RawConn 0, brw = 0, doL = 0\<rparr> (Acquire 1)
         \<lparr>store = \<lparr>world = sim0\<lparr>sim_wrapped := Some (RawConn 0), sim_now := 7\<rparr>,
                    mutexes = [False, False]\<rparr>,
          pcs = [Outside, Waiting]\<rparr> =
       Some \<lparr>store = \<lparr>world = sim0\<lparr>sim_wrapped := Some (RawConn 0), sim_now := 7\<rparr>,
                        mutexes = [True, False, False]\<rparr>,
             pcs = [Outside, Inside \<lparr>Conn = RawConn 0, brw = 0, doL = 2\<rparr>]\<rparr>
   \<and> Do \<lparr>Conn = RawConn 0, brw = 0, doL = 0\<rparr> probe
         \<lparr>world = sim0\<lparr>sim_wrapped := Some (RawConn 0), sim_now := 7\<rparr>, mutexes = [False, False]\<rparr> =
       Return (Some (PlainError ''held''),
               \<lparr>world = sim0\<lparr>sim_wrapped := Some (RawConn 0), sim_now := 2\<rparr>,
                mutexes = [False, False, False]\<rparr>)
   \<and> run \<lparr>Conn = RawConn 0, brw = 0, doL = 0\<rparr> [Enter 0, Enter 1, Acquire 0, Acquire 1]
        (start 2 \<lparr>world = sim0\<lparr>sim_wrapped := Some (RawConn 0)\<rparr>, mutexes = [False]\<rparr>) = None"
  using one_Do_at_a_time [of sim_env "RawConn 0" sim_start "\<lparr>Conn = RawConn 0, brw = 0, doL = 0\<rparr>"
      "\<lparr>world = sim0\<lparr>sim_wrapped := Some (RawConn 0)\<rparr>, mutexes = [False]\<rparr>"
      "[Enter 0, Enter 1, Acquire 0, Step 0 (\<lambda>h s. s\<lparr>world := (world s)\<lparr>sim_now := 7\<rparr>\<rparr>)]"
      2
      "\<lparr>store = \<lparr>world = sim0\<lparr>sim_wrapped := Some (RawConn 0), sim_now := 7\<rparr>,
                  mutexes = [True, False]\<rparr>,
        pcs = [Inside \<lparr>Conn = RawConn 0, brw = 0, doL = 1\<rparr>, Waiting]\<rparr>"]
    one_Do_at_a_time [of sim_env "RawConn 0" sim_start "\<lparr>Conn = RawConn 0, brw = 0, doL = 0\<rparr>"
      "\<lparr>world = sim0\<lparr>sim_wrapped := Some (RawConn 0)\<rparr>, mutexes = [False]\<rparr>"
      "[Enter 0, Enter 1, Acquire 0, Step 0 (\<lambda>h s. s\<lparr>world := (world s)\<lparr>sim_now := 7\<rparr>\<rparr>), Leave 0]"
      2
      "\<lparr>store = \<lparr>world = sim0\<lparr>sim_wrapped := Some (RawConn 0), sim_now := 7\<rparr>,
                  mutexes = [False, False]\<rparr>,
        pcs = [Outside, Waiting]\<rparr>"]
  by (simp add: NewConn_def new_connWrap_def sim_env_def sim_raw_def sim0_def sim_start_def start_def
      pc_of_def mutex_Lock_def mutex_Unlock_def holders_def numeral_2_eq_2 Do_def probe_def)

section \<open>After Close\<close>

text \<open>
  C5. A connection is dialled and closed; the stream reports closing without error and
  is closed. \<open>Do\<close> with an action that returns nil without using the connection then
  returns nil, where the specification and the comment on \<open>Client.Close\<close> (lines
  21-23) require an error: \<open>Do\<close> does not look at whether the connection has been closed.
\<close>

theorem Do_after_Close_returns_nil:
  "Dial sim_env ''tcp'' ''localhost:6379'' sim_start =
     ((Some \<lparr>Conn = RawConn 0, brw = 0, doL = 0\<rparr>, None),
      \<lparr>world = sim0\<lparr>sim_wrapped := Some (RawConn 0)\<rparr>, mutexes = [False]\<rparr>)
   \<and> connWrap_Close sim_env \<lparr>Conn = RawConn 0, brw = 0, doL = 0\<rparr> (sim0\<lparr>sim_wrapped := Some (RawConn 0)\<rparr>) =
     (None, sim0\<lparr>sim_wrapped := Some (RawConn 0), sim_closed := True\<rparr>)
   \<and> Do \<lparr>Conn = RawConn 0, brw = 0, doL = 0\<rparr> noop
        \<lparr>world = sim0\<lparr>sim_wrapped := Some (RawConn 0), sim_closed := True\<rparr>, mutexes = [False]\<rparr> =
     Return (None, \<lparr>world = sim0\<lparr>sim_wrapped := Some (RawConn 0), sim_closed := True\<rparr>,
                    mutexes = [False, False]\<rparr>)"
  by (simp add: Dial_def NewConn_def new_connWrap_def connWrap_Close_def Do_def noop_def
      mutex_Lock_def mutex_Unlock_def sim_env_def sim_raw_def sim0_def sim_start_def)

end
